theory Spec2Isabelle
  imports Main "HOL-Library.Word" "HOL-Library.Option_ord"
begin

section \<open>Python string primitives used by \<open>src/main.py\<close>\<close>

text \<open>
  Python strings are modelled as \<^typ>\<open>string\<close>, one \<^typ>\<open>char\<close> per code point in the
  range 0..255 (Latin-1 text). \<open>str.isspace\<close>, \<open>str.lower\<close> and the title case that
  \<open>str.capitalize\<close> gives the first character are modelled on that whole range. The title
  case of U+00B5 and of U+00FF lies outside the range: the model leaves these two
  characters as they are, and a statement about the capitalized form of a name excludes
  the names that begin with one of them (\<open>title_in_range\<close>).
\<close>

definition isspace :: "char \<Rightarrow> bool" where
  "isspace c =
     (let n = (of_char c :: nat)
      in (9 \<le> n \<and> n \<le> 13) \<or> (28 \<le> n \<and> n \<le> 32) \<or> n = 133 \<or> n = 160)"

text \<open>\<open>s.strip()\<close>: whitespace removed at both ends.\<close>

definition strip :: "string \<Rightarrow> string" where
  "strip s = rev (dropWhile isspace (rev (dropWhile isspace s)))"

text \<open>
  The letters of the range that have another case there: A to Z and U+00C0 to U+00DE
  without the multiplication sign, and their lower-case forms, in the same order.
\<close>

definition uppercase_letters :: string where
  "uppercase_letters =
     ''ABCDEFGHIJKLMNOPQRSTUVWXYZ''
       @ [CHR 0xC0, CHR 0xC1, CHR 0xC2, CHR 0xC3,
          CHR 0xC4, CHR 0xC5, CHR 0xC6, CHR 0xC7, CHR 0xC8, CHR 0xC9, CHR 0xCA,
          CHR 0xCB, CHR 0xCC, CHR 0xCD, CHR 0xCE, CHR 0xCF, CHR 0xD0, CHR 0xD1,
          CHR 0xD2, CHR 0xD3, CHR 0xD4, CHR 0xD5, CHR 0xD6, CHR 0xD8, CHR 0xD9,
          CHR 0xDA, CHR 0xDB, CHR 0xDC, CHR 0xDD, CHR 0xDE]"

definition lowercase_letters :: string where
  "lowercase_letters =
     ''abcdefghijklmnopqrstuvwxyz''
       @ [CHR 0xE0, CHR 0xE1, CHR 0xE2, CHR 0xE3,
          CHR 0xE4, CHR 0xE5, CHR 0xE6, CHR 0xE7, CHR 0xE8, CHR 0xE9, CHR 0xEA,
          CHR 0xEB, CHR 0xEC, CHR 0xED, CHR 0xEE, CHR 0xEF, CHR 0xF0, CHR 0xF1,
          CHR 0xF2, CHR 0xF3, CHR 0xF4, CHR 0xF5, CHR 0xF6, CHR 0xF8, CHR 0xF9,
          CHR 0xFA, CHR 0xFB, CHR 0xFC, CHR 0xFD, CHR 0xFE]"

definition lower_char :: "char \<Rightarrow> char" where
  "lower_char c = (case map_of (zip uppercase_letters lowercase_letters) c of Some l \<Rightarrow> l | None \<Rightarrow> c)"

text \<open>The title case of one character; that of the sharp s (U+00DF) is \<open>Ss\<close>.\<close>

definition title_char :: "char \<Rightarrow> string" where
  "title_char c =
     (if c = CHR 0xDF then ''Ss''
      else case map_of (zip lowercase_letters uppercase_letters) c of Some u \<Rightarrow> [u] | None \<Rightarrow> [c])"


text \<open>\<open>s.lower()\<close>.\<close>

definition lower :: "string \<Rightarrow> string" where
  "lower s = map lower_char s"

text \<open>\<open>s.capitalize()\<close>: the first character in title case, all the others lower-cased.\<close>

fun capitalize :: "string \<Rightarrow> string" where
  "capitalize [] = []"
| "capitalize (c # cs) = title_char c @ map lower_char cs"

text \<open>\<open>s.replace(a, b)\<close> for one-character \<open>a\<close> and \<open>b\<close>.\<close>

definition replace_char :: "char \<Rightarrow> char \<Rightarrow> string \<Rightarrow> string" where
  "replace_char a b s = map (\<lambda>c. if c = a then b else c) s"

text \<open>\<open>sep.join(xs)\<close>.\<close>

fun join :: "string \<Rightarrow> string list \<Rightarrow> string" where
  "join sep [] = []"
| "join sep [x] = x"
| "join sep (x # y # ys) = x @ sep @ join sep (y # ys)"

definition nl :: string where
  "nl = [CHR 0x0A]"

definition dq :: string where
  "dq = [CHR 0x22]"

definition sq :: string where
  "sq = [CHR 0x27]"

section \<open>Request data model\<close>

record CommandSpec =
  cmd_name :: string
  cmd_usage :: "string option"
  cmd_description :: "string option"

record GenerateRequest =
  plugin_name :: string
  package_name :: string
  description :: string
  api :: string
  commands :: "CommandSpec list"

section \<open>Template renderers\<close>

subsection \<open>\<open>_plugin_yml\<close>\<close>

text \<open>The body of the \<open>for cmd in commands\<close> loop; \<open>lines\<close> is the list being appended to.\<close>

fun plugin_yml_loop :: "CommandSpec list \<Rightarrow> string list \<Rightarrow> string list" where
  "plugin_yml_loop [] lines = lines"
| "plugin_yml_loop (cmd # cmds) lines =
     (let cname = strip (cmd_name cmd)
      in if cname = [] then plugin_yml_loop cmds lines
         else
           let lines1 = lines @ [''  '' @ cname @ '':''];
               lines2 = (case cmd_description cmd of
                           None \<Rightarrow> lines1
                         | Some d \<Rightarrow> if d \<noteq> [] then lines1 @ [''    description: '' @ d] else lines1);
               lines3 = lines2 @ [''    usage: /'' @ cname];
               lines4 = lines3 @ [''    permission: replix.'' @ cname];
               lines5 = lines4 @ [''    permission-message: You don'' @ sq
                                    @ ''t have permission to use this command.'']
           in plugin_yml_loop cmds lines5)"

definition plugin_yml :: "string \<Rightarrow> string \<Rightarrow> string \<Rightarrow> CommandSpec list \<Rightarrow> string" where
  "plugin_yml name main_class descr cmds =
     (let lines0 = [''name: '' @ name,
                    ''version: 1.0.0'',
                    ''api-version: '' @ sq @ ''1.20'' @ sq,
                    ''main: '' @ main_class,
                    ''description: '' @ (if descr \<noteq> [] then descr else name)];
          lines = (if cmds \<noteq> [] then plugin_yml_loop cmds (lines0 @ [''commands:'']) else lines0)
      in join nl lines @ nl)"

subsection \<open>\<open>_main_java\<close>\<close>

definition register_cmds :: "CommandSpec list \<Rightarrow> string" where
  "register_cmds cmds =
     join nl (map (\<lambda>c. ''        this.getCommand('' @ dq @ cmd_name c @ dq
                          @ '').setExecutor(new '' @ capitalize (cmd_name c) @ ''Command());'')
                  (filter (\<lambda>c. cmd_name c \<noteq> []) cmds))"

definition imports_cmds :: "string \<Rightarrow> CommandSpec list \<Rightarrow> string" where
  "imports_cmds package cmds =
     join nl (map (\<lambda>c. ''import '' @ package @ ''.commands.'' @ capitalize (cmd_name c) @ ''Command;'')
                  (filter (\<lambda>c. cmd_name c \<noteq> []) cmds))"

definition main_java :: "string \<Rightarrow> string \<Rightarrow> string \<Rightarrow> CommandSpec list \<Rightarrow> string" where
  "main_java package class_name descr cmds =
     strip (nl
       @ ''package '' @ package @ '';'' @ nl
       @ nl
       @ ''import org.bukkit.plugin.java.JavaPlugin;'' @ nl
       @ imports_cmds package cmds @ nl
       @ nl
       @ ''public class '' @ class_name @ '' extends JavaPlugin {'' @ nl
       @ nl
       @ ''    @Override'' @ nl
       @ ''    public void onEnable() {'' @ nl
       @ ''        getLogger().info('' @ dq @ (if descr \<noteq> [] then descr else class_name)
           @ '' enabled!'' @ dq @ '');'' @ nl
       @ register_cmds cmds @ nl
       @ ''    }'' @ nl
       @ nl
       @ ''    @Override'' @ nl
       @ ''    public void onDisable() {'' @ nl
       @ ''        getLogger().info('' @ dq @ class_name @ '' disabled!'' @ dq @ '');'' @ nl
       @ ''    }'' @ nl
       @ ''}'' @ nl)
     @ nl"

subsection \<open>\<open>_command_java\<close>\<close>

text \<open>The two local variables of \<open>_command_java\<close>.\<close>

definition handler_class_name :: "CommandSpec \<Rightarrow> string" where
  "handler_class_name cmd = capitalize (cmd_name cmd) @ ''Command''"

definition handler_message :: "CommandSpec \<Rightarrow> string" where
  "handler_message cmd =
     (case cmd_description cmd of
        None \<Rightarrow> ''/'' @ cmd_name cmd @ '' executed!''
      | Some d \<Rightarrow> if d \<noteq> [] then d else ''/'' @ cmd_name cmd @ '' executed!'')"

definition command_java :: "string \<Rightarrow> CommandSpec \<Rightarrow> string" where
  "command_java package cmd =
     strip (nl
       @ ''package '' @ package @ ''.commands;'' @ nl
       @ nl
       @ ''import org.bukkit.command.Command;'' @ nl
       @ ''import org.bukkit.command.CommandExecutor;'' @ nl
       @ ''import org.bukkit.command.CommandSender;'' @ nl
       @ nl
       @ ''public class '' @ handler_class_name cmd @ '' implements CommandExecutor {'' @ nl
       @ nl
       @ ''    @Override'' @ nl
       @ ''    public boolean onCommand(CommandSender sender, Command command, String label, String[] args) {'' @ nl
       @ ''        sender.sendMessage('' @ dq @ handler_message cmd @ dq @ '');'' @ nl
       @ ''        return true;'' @ nl
       @ ''    }'' @ nl
       @ ''}'' @ nl)
     @ nl"

section \<open>Archive builder\<close>

text \<open>
  A \<open>ZipFile\<close> opened for writing is modelled by the entries written to it so far, in
  the order of the \<open>writestr\<close> calls (path and text of each). The bytes that
  \<open>buf.getvalue()\<close> returns for the finished archive are produced by the \<open>zipfile\<close>
  library; they are the parameter \<open>getvalue\<close> of \<open>build_plugin_zip\<close>.
\<close>

type_synonym bytes = "8 word list"

type_synonym zip_entry = "string \<times> string"

definition writestr :: "zip_entry list \<Rightarrow> string \<Rightarrow> string \<Rightarrow> zip_entry list" where
  "writestr z path text = z @ [(path, text)]"

datatype http_error = HTTPException (status_code: nat) (detail: string)

text \<open>The exceptions the handlers raise, and the one the framework makes of any other.\<close>

definition invalid_package :: http_error where
  "invalid_package =
     HTTPException 400 ''package_name must be a valid Java package like com.example.plugin''"

definition db_not_available :: http_error where
  "db_not_available = HTTPException 500 ''Database not available''"

definition invalid_id :: http_error where
  "invalid_id = HTTPException 400 ''Invalid id''"

definition archive_not_found :: http_error where
  "archive_not_found = HTTPException 404 ''Archive not found''"

definition internal_server_error :: http_error where
  "internal_server_error = HTTPException 500 ''Internal Server Error''"

definition pom_xml :: "string \<Rightarrow> GenerateRequest \<Rightarrow> string" where
  "pom_xml pkg req =
     strip (nl
       @ ''<project xmlns='' @ dq @ ''http://maven.apache.org/POM/4.0.0'' @ dq
           @ '' xmlns:xsi='' @ dq @ ''http://www.w3.org/2001/XMLSchema-instance'' @ dq @ nl
       @ ''    xsi:schemaLocation='' @ dq
           @ ''http://maven.apache.org/POM/4.0.0 http://maven.apache.org/xsd/maven-4.0.0.xsd''
           @ dq @ ''>'' @ nl
       @ ''  <modelVersion>4.0.0</modelVersion>'' @ nl
       @ ''  <groupId>'' @ pkg @ ''</groupId>'' @ nl
       @ ''  <artifactId>'' @ replace_char (CHR '' '') (CHR ''-'') (lower (plugin_name req))
           @ ''</artifactId>'' @ nl
       @ ''  <version>1.0.0</version>'' @ nl
       @ ''  <name>'' @ plugin_name req @ ''</name>'' @ nl
       @ ''  <description>'' @ description req @ ''</description>'' @ nl
       @ ''  <build>'' @ nl
       @ ''    <sourceDirectory>src/main/java</sourceDirectory>'' @ nl
       @ ''    <plugins>'' @ nl
       @ ''      <plugin>'' @ nl
       @ ''        <groupId>org.apache.maven.plugins</groupId>'' @ nl
       @ ''        <artifactId>maven-compiler-plugin</artifactId>'' @ nl
       @ ''        <version>3.11.0</version>'' @ nl
       @ ''        <configuration>'' @ nl
       @ ''          <source>17</source>'' @ nl
       @ ''          <target>17</target>'' @ nl
       @ ''        </configuration>'' @ nl
       @ ''      </plugin>'' @ nl
       @ ''    </plugins>'' @ nl
       @ ''  </build>'' @ nl
       @ ''  <dependencies>'' @ nl
       @ ''    <dependency>'' @ nl
       @ ''      <groupId>org.spigotmc</groupId>'' @ nl
       @ ''      <artifactId>spigot-api</artifactId>'' @ nl
       @ ''      <version>1.20.1-R0.1-SNAPSHOT</version>'' @ nl
       @ ''      <scope>provided</scope>'' @ nl
       @ ''    </dependency>'' @ nl
       @ ''  </dependencies>'' @ nl
       @ ''  <repositories>'' @ nl
       @ ''    <repository>'' @ nl
       @ ''      <id>spigot-repo</id>'' @ nl
       @ ''      <url>https://hub.spigotmc.org/nexus/content/repositories/snapshots/</url>'' @ nl
       @ ''    </repository>'' @ nl
       @ ''    <repository>'' @ nl
       @ ''      <id>sonatype</id>'' @ nl
       @ ''      <url>https://oss.sonatype.org/content/groups/public/</url>'' @ nl
       @ ''    </repository>'' @ nl
       @ ''  </repositories>'' @ nl
       @ ''</project>'' @ nl)
     @ nl"

definition gitignore :: string where
  "gitignore = ''.idea'' @ nl @ ''*.iml'' @ nl @ ''*.class'' @ nl @ ''/target'' @ nl"

text \<open>The \<open>for cmd in req.commands\<close> loop of \<open>build_plugin_zip\<close>, writing to \<open>z\<close>.\<close>

fun write_handlers :: "string \<Rightarrow> string \<Rightarrow> CommandSpec list \<Rightarrow> zip_entry list \<Rightarrow> zip_entry list" where
  "write_handlers pkg commands_pkg_path [] z = z"
| "write_handlers pkg commands_pkg_path (cmd # cmds) z =
     (let cname = strip (cmd_name cmd)
      in if cname = [] then write_handlers pkg commands_pkg_path cmds z
         else write_handlers pkg commands_pkg_path cmds
                (writestr z (commands_pkg_path @ capitalize cname @ ''Command.java'')
                   (command_java pkg cmd)))"

text \<open>The body of the \<open>with ZipFile(...) as z\<close> block, for the trimmed package name \<open>pkg\<close>.\<close>

definition zip_writes :: "string \<Rightarrow> GenerateRequest \<Rightarrow> zip_entry list" where
  "zip_writes pkg req =
     (let main_class_name = ''Main'';
          full_main_class = pkg @ ''.'' @ main_class_name;
          z1 = writestr [] ''plugin.yml''
                 (plugin_yml (plugin_name req) full_main_class (description req) (commands req));
          java_path = ''src/main/java/'' @ replace_char (CHR ''.'') (CHR ''/'') pkg @ ''/'';
          z2 = writestr z1 (java_path @ main_class_name @ ''.java'')
                 (main_java pkg main_class_name (description req) (commands req));
          z3 = (if commands req \<noteq> []
                then write_handlers pkg (java_path @ ''commands/'') (commands req) z2
                else z2);
          z4 = writestr z3 ''pom.xml'' (pom_xml pkg req);
          z5 = writestr z4 ''.gitignore'' gitignore
      in z5)"

definition build_plugin_zip :: "(zip_entry list \<Rightarrow> bytes) \<Rightarrow> GenerateRequest \<Rightarrow> http_error + bytes" where
  "build_plugin_zip getvalue req =
     (let pkg = strip (package_name req)
      in if pkg = [] \<or> CHR ''.'' \<notin> set pkg
         then Inl invalid_package
         else Inr (getvalue (zip_writes pkg req)))"

section \<open>Generation store\<close>

text \<open>
  The MongoDB collection \<open>db["generation"]\<close>. Every stored document carries its \<open>_id\<close>,
  a 12-byte ObjectId; a collection is the list of its documents in insertion order,
  each as the pair of its \<open>_id\<close> and its other fields. A document is a Python
  dictionary: an association list in key order.
\<close>

type_synonym objectid = "96 word"

datatype bson =
    BNull
  | BString string
  | BInt int
  | BDateTime int
  | BBinary bytes
  | BObjectId objectid
  | BArray "bson list"
  | BDocument "(string \<times> bson) list"

type_synonym document = "(string \<times> bson) list"

type_synonym collection = "(objectid \<times> document) list"

text \<open>\<open>d.get(k)\<close>, \<open>d.pop(k)\<close> (the dictionary left) and \<open>d[k] = v\<close>.\<close>

definition dict_get :: "document \<Rightarrow> string \<Rightarrow> bson option" where
  "dict_get d k = map_of d k"

definition dict_pop :: "string \<Rightarrow> document \<Rightarrow> document" where
  "dict_pop k d = filter (\<lambda>kv. fst kv \<noteq> k) d"

fun dict_set :: "string \<Rightarrow> bson \<Rightarrow> document \<Rightarrow> document" where
  "dict_set k v [] = [(k, v)]"
| "dict_set k v (kv # d) = (if fst kv = k then (k, v) # d else kv # dict_set k v d)"

text \<open>Python truth value of an optional field value (\<open>None\<close> when the key is missing).\<close>

fun truthy :: "bson option \<Rightarrow> bool" where
  "truthy None = False"
| "truthy (Some BNull) = False"
| "truthy (Some (BString s)) = (s \<noteq> [])"
| "truthy (Some (BInt i)) = (i \<noteq> 0)"
| "truthy (Some (BDateTime t)) = True"
| "truthy (Some (BBinary b)) = (b \<noteq> [])"
| "truthy (Some (BObjectId i)) = True"
| "truthy (Some (BArray xs)) = (xs \<noteq> [])"
| "truthy (Some (BDocument d)) = (d \<noteq> [])"

subsection \<open>ObjectId and its 24-digit hexadecimal form\<close>

definition hexdigits :: string where
  "hexdigits = ''0123456789abcdef''"

text \<open>The \<open>k\<close> low hexadecimal digits of \<open>n\<close>, most significant first.\<close>

fun hex_of_nat :: "nat \<Rightarrow> nat \<Rightarrow> string" where
  "hex_of_nat 0 n = []"
| "hex_of_nat (Suc k) n = hex_of_nat k (n div 16) @ [hexdigits ! (n mod 16)]"

text \<open>\<open>str(oid)\<close> for a stored identifier.\<close>

definition str_oid :: "objectid \<Rightarrow> string" where
  "str_oid oid = hex_of_nat 24 (unat oid)"

text \<open>The \<open>k\<close> low bytes of \<open>n\<close>, most significant first; the 12 bytes of a stored identifier.\<close>

fun bytes_of_nat :: "nat \<Rightarrow> nat \<Rightarrow> bytes" where
  "bytes_of_nat 0 n = []"
| "bytes_of_nat (Suc k) n = bytes_of_nat k (n div 256) @ [word_of_nat (n mod 256)]"

definition oid_binary :: "objectid \<Rightarrow> bytes" where
  "oid_binary oid = bytes_of_nat 12 (unat oid)"

definition hex_val :: "char \<Rightarrow> nat option" where
  "hex_val c =
     map_of (zip (hexdigits @ ''ABCDEF'') ([0 ..< 16] @ [10 ..< 16])) c"

text \<open>
  \<open>bytes.fromhex(s)\<close>: pairs of hexadecimal digits, ASCII whitespace skipped before a
  pair and at the end; \<open>None\<close> stands for \<open>ValueError\<close>.
\<close>

definition hex_space :: "char \<Rightarrow> bool" where
  "hex_space c = (let n = (of_char c :: nat) in (9 \<le> n \<and> n \<le> 13) \<or> n = 32)"

fun fromhex :: "string \<Rightarrow> bytes option" where
  "fromhex [] = Some []"
| "fromhex [c] = (if hex_space c then Some [] else None)"
| "fromhex (c # d # s) =
     (if hex_space c then fromhex (d # s)
      else case hex_val c of
             None \<Rightarrow> None
           | Some h \<Rightarrow>
               (case hex_val d of
                  None \<Rightarrow> None
                | Some l \<Rightarrow>
                    (case fromhex s of
                       None \<Rightarrow> None
                     | Some bs \<Rightarrow> Some (word_of_nat (16 * h + l) # bs))))"

text \<open>
  \<open>ObjectId(s)\<close> for a string \<open>s\<close>: a string of 24 characters that \<open>bytes.fromhex\<close>
  accepts gives the identifier of the bytes it denotes (12 bytes when the characters are
  24 hexadecimal digits, fewer when some are whitespace); \<open>None\<close> stands for the
  exception \<open>InvalidId\<close>.
\<close>

definition ObjectId :: "string \<Rightarrow> bytes option" where
  "ObjectId s = (if length s = 24 then fromhex s else None)"

subsection \<open>Collection operations\<close>

text \<open>
  \<open>insert_one(doc)\<close>: the driver gives the document a new \<open>_id\<close> (the parameter \<open>new_id\<close>);
  the server refuses an \<open>_id\<close> that the collection already holds, and the exception,
  which the handler does not catch, surfaces as the framework's internal server error.
\<close>

definition insert_one :: "collection \<Rightarrow> objectid \<Rightarrow> document \<Rightarrow> http_error + collection" where
  "insert_one coll new_id doc =
     (if new_id \<in> fst ` set coll
      then Inl internal_server_error
      else Inr (coll @ [(new_id, doc)]))"

text \<open>
  \<open>find_one({"_id": oid})\<close> for a parsed identifier: the first document whose \<open>_id\<close> has
  the same bytes.
\<close>

definition find_one :: "collection \<Rightarrow> bytes \<Rightarrow> document option" where
  "find_one coll oid =
     (case find (\<lambda>r. oid_binary (fst r) = oid) coll of
        None \<Rightarrow> None
      | Some r \<Rightarrow> Some ((''_id'', BObjectId (fst r)) # snd r))"

text \<open>
  The key of \<open>sort("created_at", -1)\<close>: the date stored under \<open>created_at\<close>; a document
  without one sorts below every date.
\<close>

definition created_at_key :: "document \<Rightarrow> int option" where
  "created_at_key d = (case dict_get d ''created_at'' of Some (BDateTime t) \<Rightarrow> Some t | _ \<Rightarrow> None)"

fun insort_desc :: "('a \<Rightarrow> 'k::linorder) \<Rightarrow> 'a \<Rightarrow> 'a list \<Rightarrow> 'a list" where
  "insort_desc k x [] = [x]"
| "insort_desc k x (y # ys) = (if k y \<le> k x then x # y # ys else y # insort_desc k x ys)"

definition sort_desc :: "('a \<Rightarrow> 'k::linorder) \<Rightarrow> 'a list \<Rightarrow> 'a list" where
  "sort_desc k xs = foldr (insort_desc k) xs []"

text \<open>
  \<open>cursor.limit(n)\<close>: a limit of 0 is no limit; a negative limit is the limit \<open>|n|\<close>
  (in a single batch).
\<close>

definition cursor_limit :: "int \<Rightarrow> 'a list \<Rightarrow> 'a list" where
  "cursor_limit n xs = (if n = 0 then xs else take (nat \<bar>n\<bar>) xs)"

text \<open>\<open>find({}, {"zip": 0}).sort("created_at", -1).limit(limit)\<close>.\<close>

definition find_history :: "collection \<Rightarrow> int \<Rightarrow> collection" where
  "find_history coll limit =
     map (\<lambda>r. (fst r, dict_pop ''zip'' (snd r)))
       (cursor_limit limit (sort_desc (\<lambda>r. created_at_key (snd r)) coll))"

section \<open>Request handlers\<close>

text \<open>
  The global \<open>db\<close> is \<open>None\<close> when the database is not available, and otherwise gives
  the collection \<open>db["generation"]\<close>. A handler takes it as an argument; Generate, the
  only handler that writes, returns it updated next to its response.
\<close>

subsection \<open>\<open>generate_plugin\<close>\<close>

record GenerateResponse =
  resp_id :: string
  resp_archive_size :: int
  resp_download_url :: string
  resp_message :: string

text \<open>\<open>c.model_dump()\<close>.\<close>

definition model_dump :: "CommandSpec \<Rightarrow> bson" where
  "model_dump c =
     BDocument [(''name'', BString (cmd_name c)),
                (''usage'', case cmd_usage c of None \<Rightarrow> BNull | Some u \<Rightarrow> BString u),
                (''description'', case cmd_description c of None \<Rightarrow> BNull | Some d \<Rightarrow> BString d)]"

text \<open>The value of the \<open>files\<close> field of the stored document.\<close>

definition files_of :: "GenerateRequest \<Rightarrow> string list" where
  "files_of req =
     [''plugin.yml'',
      ''src/main/java/'' @ replace_char (CHR ''.'') (CHR ''/'') (package_name req) @ ''/Main.java'']
     @ (if commands req \<noteq> []
        then map (\<lambda>c. ''src/main/java/'' @ replace_char (CHR ''.'') (CHR ''/'') (package_name req)
                         @ ''/commands/'' @ capitalize (cmd_name c) @ ''Command.java'')
               (filter (\<lambda>c. cmd_name c \<noteq> []) (commands req))
        else [])"

text \<open>
  \<open>created\<close> and \<open>updated\<close> are the two readings of the clock, \<open>new_id\<close> the identifier
  the driver gives the inserted document.
\<close>

definition generation_doc :: "GenerateRequest \<Rightarrow> bytes \<Rightarrow> int \<Rightarrow> int \<Rightarrow> document" where
  "generation_doc req zip_bytes created updated =
     [(''plugin_name'', BString (plugin_name req)),
      (''package_name'', BString (package_name req)),
      (''description'', BString (description req)),
      (''api'', BString (api req)),
      (''commands'', BArray (map model_dump (commands req))),
      (''files'', BArray (map BString (files_of req))),
      (''archive_size'', BInt (int (length zip_bytes))),
      (''created_at'', BDateTime created),
      (''updated_at'', BDateTime updated),
      (''zip'', BBinary zip_bytes)]"

definition generate_plugin ::
  "(zip_entry list \<Rightarrow> bytes) \<Rightarrow> collection option \<Rightarrow> objectid \<Rightarrow> int \<Rightarrow> int \<Rightarrow> GenerateRequest
     \<Rightarrow> (http_error + GenerateResponse) \<times> collection option" where
  "generate_plugin getvalue db new_id created updated req =
     (case db of
        None \<Rightarrow> (Inl db_not_available, db)
      | Some coll \<Rightarrow>
          (case build_plugin_zip getvalue req of
             Inl e \<Rightarrow> (Inl e, db)
           | Inr zip_bytes \<Rightarrow>
               (let size = int (length zip_bytes);
                    doc = generation_doc req zip_bytes created updated
                in case insert_one coll new_id doc of
                     Inl e \<Rightarrow> (Inl e, db)
                   | Inr coll' \<Rightarrow>
                       (let gen_id = str_oid new_id
                        in (Inr \<lparr>resp_id = gen_id,
                                 resp_archive_size = size,
                                 resp_download_url = ''/api/download/'' @ gen_id,
                                 resp_message = ''Plugin generated successfully''\<rparr>,
                            Some coll')))))"

subsection \<open>\<open>download_plugin\<close>\<close>

record DownloadResponse =
  body :: bytes
  media_type :: string
  content_disposition :: string

text \<open>
  \<open>bytes(v)\<close> for a stored value \<open>v\<close>: the bytes of a binary, \<open>n\<close> zero bytes for an
  integer \<open>n \<ge> 0\<close>, the bytes listed by an array of integers from 0 to 255; \<open>None\<close> stands
  for the \<open>TypeError\<close> or \<open>ValueError\<close> of every other value.
\<close>

fun byte_of :: "bson \<Rightarrow> 8 word option" where
  "byte_of (BInt i) = (if 0 \<le> i \<and> i < 256 then Some (word_of_int i) else None)"
| "byte_of _ = None"

fun to_bytes :: "bson \<Rightarrow> bytes option" where
  "to_bytes (BBinary b) = Some b"
| "to_bytes (BInt i) = (if 0 \<le> i then Some (replicate (nat i) 0) else None)"
| "to_bytes (BArray xs) = those (map byte_of xs)"
| "to_bytes _ = None"

text \<open>
  An exception of \<open>bytes(doc["zip"])\<close> or of \<open>doc.get('plugin_name', 'plugin').lower()\<close>
  (a plugin name that is not a string) surfaces as the framework's internal server error.
\<close>

definition download_plugin :: "collection option \<Rightarrow> string \<Rightarrow> http_error + DownloadResponse" where
  "download_plugin db gen_id =
     (case db of
        None \<Rightarrow> Inl db_not_available
      | Some coll \<Rightarrow>
          (case ObjectId gen_id of
             None \<Rightarrow> Inl invalid_id
           | Some oid \<Rightarrow>
               (case find_one coll oid of
                  None \<Rightarrow> Inl archive_not_found
                | Some doc \<Rightarrow>
                    (case dict_get doc ''zip'' of
                       None \<Rightarrow> Inl archive_not_found
                     | Some z \<Rightarrow>
                         if \<not> truthy (Some z) then Inl archive_not_found
                         else
                           (case to_bytes z of
                              None \<Rightarrow> Inl internal_server_error
                            | Some data \<Rightarrow>
                                (case (case dict_get doc ''plugin_name'' of
                                         None \<Rightarrow> Some ''plugin''
                                       | Some (BString s) \<Rightarrow> Some s
                                       | Some _ \<Rightarrow> None) of
                                   None \<Rightarrow> Inl internal_server_error
                                 | Some pname \<Rightarrow>
                                     (let filename = replace_char (CHR '' '') (CHR ''-'') (lower pname)
                                                       @ ''.zip''
                                      in Inr \<lparr>body = data,
                                              media_type = ''application/zip'',
                                              content_disposition =
                                                ''attachment; filename='' @ filename\<rparr>)))))))"

subsection \<open>\<open>history\<close>\<close>

text \<open>The loop body: \<open>it["id"] = str(it.pop("_id"))\<close>.\<close>

definition history_item :: "objectid \<times> document \<Rightarrow> document" where
  "history_item r =
     (let it = (''_id'', BObjectId (fst r)) # snd r;
          popped = str_oid (fst r);
          it' = dict_pop ''_id'' it
      in dict_set ''id'' (BString popped) it')"

definition history :: "collection option \<Rightarrow> int \<Rightarrow> http_error + document list" where
  "history db limit =
     (case db of
        None \<Rightarrow> Inl db_not_available
      | Some coll \<Rightarrow> Inr (map history_item (find_history coll limit)))"

section \<open>The specification's wording, for comparison\<close>


text \<open>
  The block of one command in the manifest, as the specification lists it: the key line,
  a description line only if a description was provided, the usage line, the permission
  string and the permission-denied message; \<open>cname\<close> is the trimmed name.
\<close>

definition manifest_block :: "CommandSpec \<Rightarrow> string list" where
  "manifest_block cmd =
     (let cname = strip (cmd_name cmd)
      in [''  '' @ cname @ '':'']
         @ (case cmd_description cmd of
              None \<Rightarrow> []
            | Some d \<Rightarrow> if d \<noteq> [] then [''    description: '' @ d] else [])
         @ [''    usage: /'' @ cname,
            ''    permission: replix.'' @ cname,
            ''    permission-message: You don'' @ sq @ ''t have permission to use this command.''])"

text \<open>
  The archive paths of the main entry and of the handler of one command, for the trimmed
  package name \<open>pkg\<close>.
\<close>

definition main_path :: "string \<Rightarrow> string" where
  "main_path pkg = ''src/main/java/'' @ replace_char (CHR ''.'') (CHR ''/'') pkg @ ''/Main.java''"

definition handler_path :: "string \<Rightarrow> CommandSpec \<Rightarrow> string" where
  "handler_path pkg cmd =
     ''src/main/java/'' @ replace_char (CHR ''.'') (CHR ''/'') pkg @ ''/commands/''
       @ capitalize (strip (cmd_name cmd)) @ ''Command.java''"

text \<open>A command is included when its trimmed name is not empty.\<close>

definition well_named :: "CommandSpec \<Rightarrow> bool" where
  "well_named cmd = (strip (cmd_name cmd) \<noteq> [])"

section \<open>Sample inputs\<close>

definition req0 :: GenerateRequest where
  "req0 = \<lparr>plugin_name = ''My Plugin'', package_name = ''com.example'', description = '''',
           api = ''spigot'', commands = []\<rparr>"

definition pk :: "zip_entry list \<Rightarrow> bytes" where
  "pk z = [0x50, 0x4B]"

definition collA :: collection where
  "collA = [(1, [(''created_at'', BDateTime 5), (''zip'', BBinary [0x50, 0x4B])])]"

definition collT :: collection where
  "collT = [(1, [(''created_at'', BDateTime 5), (''zip'', BBinary [0x50, 0x4B])]),
            (2, [(''created_at'', BDateTime 5), (''zip'', BBinary [0x50, 0x4B])]),
            (3, [(''created_at'', BDateTime 9), (''zip'', BBinary [0x50, 0x4B])])]"

definition cmd_hello :: CommandSpec where
  "cmd_hello = \<lparr>cmd_name = ''hello'', cmd_usage = None, cmd_description = Some ''Say hi''\<rparr>"

definition cmd_blank :: CommandSpec where
  "cmd_blank = \<lparr>cmd_name = '' '', cmd_usage = None, cmd_description = None\<rparr>"

definition cmd_greet :: CommandSpec where
  "cmd_greet = \<lparr>cmd_name = '' greet'', cmd_usage = None, cmd_description = None\<rparr>"


definition req_cmds :: GenerateRequest where
  "req_cmds = \<lparr>plugin_name = ''My Plugin'', package_name = ''com.example'', description = '''',
               api = ''spigot'', commands = [cmd_hello, cmd_blank, cmd_greet]\<rparr>"

definition req_blank :: GenerateRequest where
  "req_blank = \<lparr>plugin_name = ''My Plugin'', package_name = ''com.example'', description = '''',
                api = ''spigot'', commands = [cmd_blank]\<rparr>"

section \<open>Auxiliary lemmas\<close>

subsection \<open>Trimming and package validation\<close>

lemma isspace_dot: "\<not> isspace (CHR ''.'')" by (simp add: isspace_def)

lemma set_dropWhile_keep: "x \<in> set xs \<Longrightarrow> \<not> P x \<Longrightarrow> x \<in> set (dropWhile P xs)"
  by (induction xs) auto

lemma dropWhile_keep_iff: "\<not> P x \<Longrightarrow> x \<in> set (dropWhile P xs) \<longleftrightarrow> x \<in> set xs"
  by (induction xs) auto

lemma in_set_strip: "\<not> isspace x \<Longrightarrow> x \<in> set (strip s) \<longleftrightarrow> x \<in> set s"
  by (simp add: strip_def dropWhile_keep_iff)

lemma strip_Nil_iff: "strip s = [] \<longleftrightarrow> (\<forall>c\<in>set s. isspace c)"
proof -
  have "strip s = [] \<longleftrightarrow> (\<forall>x\<in>set (dropWhile isspace s). isspace x)"
    by (simp add: strip_def)
  also have "\<dots> \<longleftrightarrow> (\<forall>c\<in>set s. isspace c)"
    using dropWhile_keep_iff[of isspace _ s] by blast
  finally show ?thesis .
qed

lemma malformed_iff:
  "(strip p = [] \<or> CHR ''.'' \<notin> set (strip p)) \<longleftrightarrow> (p = [] \<or> CHR ''.'' \<notin> set p)"
  using in_set_strip[OF isspace_dot, of p] strip_Nil_iff[of p] isspace_dot by auto

lemma build_plugin_zip_rejects:
  "build_plugin_zip getvalue req = Inl invalid_package \<longleftrightarrow>
     (package_name req = [] \<or> CHR ''.'' \<notin> set (package_name req))"
  using malformed_iff[of "package_name req"]
  by (auto simp: build_plugin_zip_def Let_def)

lemma build_plugin_zip_cases:
  "build_plugin_zip getvalue req =
     (if package_name req = [] \<or> CHR ''.'' \<notin> set (package_name req) then Inl invalid_package
      else Inr (getvalue (zip_writes (strip (package_name req)) req)))"
  using malformed_iff[of "package_name req"]
  by (auto simp: build_plugin_zip_def Let_def)

subsection \<open>Generate\<close>

lemma generate_plugin_unavailable:
  "generate_plugin getvalue None new_id created updated req = (Inl db_not_available, None)"
  by (simp add: generate_plugin_def)

lemma errors_distinct:
  "db_not_available \<noteq> invalid_package" "invalid_id \<noteq> archive_not_found"
  "internal_server_error \<noteq> invalid_package"
  by (simp_all add: db_not_available_def invalid_package_def invalid_id_def archive_not_found_def internal_server_error_def)

lemma generate_plugin_available:
  "generate_plugin getvalue (Some coll) new_id created updated req =
     (if package_name req = [] \<or> CHR ''.'' \<notin> set (package_name req)
      then (Inl invalid_package, Some coll)
      else if new_id \<in> fst ` set coll then (Inl internal_server_error, Some coll)
      else (Inr \<lparr>resp_id = str_oid new_id,
                 resp_archive_size = int (length (getvalue (zip_writes (strip (package_name req)) req))),
                 resp_download_url = ''/api/download/'' @ str_oid new_id,
                 resp_message = ''Plugin generated successfully''\<rparr>,
            Some (coll @ [(new_id, generation_doc req (getvalue (zip_writes (strip (package_name req)) req)) created updated)])))"
  by (simp add: generate_plugin_def build_plugin_zip_cases insert_one_def Let_def)

subsection \<open>Store, Download and History\<close>











lemma find_one_absent: "oid \<notin> oid_binary ` fst ` set coll \<Longrightarrow> find_one coll oid = None"
proof -
  assume "oid \<notin> oid_binary ` fst ` set coll"
  then have "find (\<lambda>r. oid_binary (fst r) = oid) coll = None"
    by (force simp: find_None_iff)
  then show ?thesis by (simp add: find_one_def)
qed




lemma length_insort_desc: "length (insort_desc k x xs) = Suc (length xs)"
  by (induction xs) auto

lemma set_insort_desc: "set (insort_desc k x xs) = insert x (set xs)"
  by (induction xs) auto

lemma sorted_insort_desc:
  "sorted_wrt (\<lambda>a b. k b \<le> k a) xs \<Longrightarrow> sorted_wrt (\<lambda>a b. k b \<le> k a) (insort_desc k x xs)"
  by (induction xs) (auto simp: set_insort_desc)

lemma distinct_insort_desc:
  "distinct (map k (insort_desc k x xs)) \<longleftrightarrow> k x \<notin> k ` set xs \<and> distinct (map k xs)"
  by (induction xs) (auto simp: set_insort_desc)

lemma length_sort_desc: "length (sort_desc k xs) = length xs"
  unfolding sort_desc_def by (induction xs) (auto simp: length_insort_desc)

lemma set_sort_desc: "set (sort_desc k xs) = set xs"
  unfolding sort_desc_def by (induction xs) (auto simp: set_insort_desc)

lemma sorted_sort_desc: "sorted_wrt (\<lambda>a b. k b \<le> k a) (sort_desc k xs)"
  unfolding sort_desc_def by (induction xs) (auto simp: sorted_insort_desc)

lemma distinct_sort_desc: "distinct (map k (sort_desc k xs)) \<longleftrightarrow> distinct (map k xs)"
proof (induction xs)
  case Nil
  show ?case by (simp add: sort_desc_def)
next
  case (Cons x xs)
  have "sort_desc k (x # xs) = insort_desc k x (sort_desc k xs)"
    by (simp add: sort_desc_def)
  then show ?case
    using Cons by (simp add: distinct_insort_desc set_sort_desc)
qed

lemma sorted_wrt_strict:
  "sorted_wrt (\<lambda>a b. k b \<le> k a) xs \<Longrightarrow> distinct (map k xs)
     \<Longrightarrow> sorted_wrt (\<lambda>a b. (k b :: 'k :: linorder) < k a) xs"
proof (induction xs)
  case Nil
  show ?case by simp
next
  case (Cons x xs)
  have "k y < k x" if "y \<in> set xs" for y
  proof -
    from Cons.prems(1) that have "k y \<le> k x" by simp
    moreover from Cons.prems(2) have "k x \<notin> k ` set xs" by simp
    with that have "k y \<noteq> k x" by (metis imageI)
    ultimately show ?thesis by simp
  qed
  with Cons show ?case by simp
qed

lemma map_of_dict_pop: "k \<noteq> k' \<Longrightarrow> map_of (dict_pop k' d) k = map_of d k"
  unfolding dict_pop_def by (induction d) auto

lemma map_of_dict_set: "map_of (dict_set k v d) k' = (if k' = k then Some v else map_of d k')"
  by (induction d) auto

lemma keys_dict_pop: "fst ` set (dict_pop k d) = fst ` set d - {k}"
  unfolding dict_pop_def by auto

lemma keys_dict_set: "fst ` set (dict_set k v d) = insert k (fst ` set d)"
  by (induction d) auto

lemma dict_pop_Cons_same: "dict_pop k ((k, v) # d) = dict_pop k d"
  by (simp add: dict_pop_def)

lemma history_item_eq:
  "history_item (i, d) = dict_set ''id'' (BString (str_oid i)) (dict_pop ''_id'' d)"
  by (simp add: history_item_def dict_pop_Cons_same)

lemma created_at_key_history_item:
  "created_at_key (history_item (i, dict_pop ''zip'' d)) = created_at_key d"
  by (simp add: created_at_key_def history_item_eq dict_get_def map_of_dict_set map_of_dict_pop)

lemma history_item_no_zip: "''zip'' \<notin> fst ` set (history_item (i, dict_pop ''zip'' d))"
  by (simp add: history_item_eq keys_dict_set keys_dict_pop)

lemma history_items:
  "history (Some coll) limit =
     Inr (map (\<lambda>r. history_item (fst r, dict_pop ''zip'' (snd r)))
            (cursor_limit limit (sort_desc (\<lambda>r. created_at_key (snd r)) coll)))"
  by (simp add: history_def find_history_def comp_def)

subsection \<open>Renderers and archive\<close>





lemma plugin_yml_loop_blocks:
  "plugin_yml_loop cmds lines = lines @ concat (map manifest_block (filter well_named cmds))"
proof (induction cmds arbitrary: lines)
  case Nil
  show ?case by simp
next
  case (Cons cmd cmds)
  show ?case
  proof (cases "strip (cmd_name cmd) = []")
    case True
    then show ?thesis by (simp add: Cons.IH well_named_def)
  next
    case False
    then show ?thesis
      by (cases "cmd_description cmd") (simp_all add: Cons.IH well_named_def manifest_block_def Let_def)
  qed
qed

lemma write_handlers_entries:
  "write_handlers pkg p cmds z =
     z @ map (\<lambda>c. (p @ capitalize (strip (cmd_name c)) @ ''Command.java'', command_java pkg c))
           (filter well_named cmds)"
  by (induction cmds arbitrary: z) (simp_all add: well_named_def writestr_def Let_def)

lemma zip_writes_entries:
  "zip_writes pkg req =
     [(''plugin.yml'', plugin_yml (plugin_name req) (pkg @ ''.Main'') (description req) (commands req)),
      (main_path pkg, main_java pkg ''Main'' (description req) (commands req))]
     @ map (\<lambda>c. (handler_path pkg c, command_java pkg c)) (filter well_named (commands req))
     @ [(''pom.xml'', pom_xml pkg req), (''.gitignore'', gitignore)]"
  by (simp add: zip_writes_def writestr_def write_handlers_entries main_path_def handler_path_def Let_def)

lemma paths_req_cmds:
  "[''plugin.yml'', main_path ''com.example'']
     @ map (handler_path ''com.example'') (filter well_named [cmd_hello, cmd_blank, cmd_greet])
     @ [''pom.xml'', ''.gitignore'']
   = [''plugin.yml'', ''src/main/java/com/example/Main.java'',
      ''src/main/java/com/example/commands/HelloCommand.java'',
      ''src/main/java/com/example/commands/GreetCommand.java'',
      ''pom.xml'', ''.gitignore'']"
  by code_simp

lemma files_of_trimmed:
  assumes "strip (package_name req) = package_name req"
      and "\<forall>c\<in>set (commands req). strip (cmd_name c) = cmd_name c"
  shows "files_of req =
           [''plugin.yml'', main_path (strip (package_name req))]
           @ map (handler_path (strip (package_name req))) (filter well_named (commands req))"
proof -
  have f: "filter (\<lambda>c. cmd_name c \<noteq> []) (commands req) = filter well_named (commands req)"
    using assms(2) by (intro filter_cong) (simp_all add: well_named_def)
  show ?thesis
    using assms by (auto simp: files_of_def f main_path_def handler_path_def)
qed

section \<open>Claims\<close>

text \<open>
  C3 (as amended). \<open>build_plugin_zip\<close> rejects with the package-name validation error
  (status 400) exactly when the package name is empty or contains no \<open>.\<close>; Generate, when
  storage is available, rejects with that error exactly in the same case. The rejection
  does not depend on the archive serialisation (no archive bytes are produced), and
  Generate leaves the collection as it was.
\<close>

theorem package_validation:
  "(build_plugin_zip getvalue req = Inl invalid_package \<longleftrightarrow>
      (package_name req = [] \<or> CHR ''.'' \<notin> set (package_name req)))
   \<and> (fst (generate_plugin getvalue (Some coll) new_id created updated req) = Inl invalid_package \<longleftrightarrow>
      (package_name req = [] \<or> CHR ''.'' \<notin> set (package_name req)))
   \<and> (package_name req = [] \<or> CHR ''.'' \<notin> set (package_name req) \<longrightarrow>
        (\<forall>gv. build_plugin_zip gv req = Inl invalid_package)
        \<and> generate_plugin getvalue (Some coll) new_id created updated req = (Inl invalid_package, Some coll))
   \<and> status_code invalid_package = 400"
proof -
  have "status_code invalid_package = 400"
    by (simp add: invalid_package_def)
  then show ?thesis
    using errors_distinct(3)
    by (simp add: build_plugin_zip_rejects generate_plugin_available)
qed

theorem package_validation_witness:
  "build_plugin_zip (\<lambda>z. [1]) (req0\<lparr>package_name := ''noseparator''\<rparr>) = Inl invalid_package
   \<and> build_plugin_zip (\<lambda>z. [1]) (req0\<lparr>package_name := ''''\<rparr>) = Inl invalid_package
   \<and> build_plugin_zip (\<lambda>z. [1]) req0 \<noteq> Inl invalid_package
   \<and> generate_plugin (\<lambda>z. [1]) (Some []) 7 0 0 (req0\<lparr>package_name := ''noseparator''\<rparr>)
       = (Inl invalid_package, Some [])"
  using package_validation [of "\<lambda>z. [1]" "req0\<lparr>package_name := ''noseparator''\<rparr>" "[]" 7 0 0]
        package_validation [of "\<lambda>z. [1]" "req0\<lparr>package_name := ''''\<rparr>" "[]" 7 0 0]
        package_validation [of "\<lambda>z. [1]" "req0" "[]" 7 0 0]
  by (simp add: req0_def)

text \<open>
  C3 as stated fails for Generate when storage is unavailable: for the empty package name
  the response is the storage error, not the validation error.
\<close>

theorem generate_unavailable_counterexample:
  "fst (generate_plugin (\<lambda>z. [1]) None 7 0 0 (req0\<lparr>package_name := ''''\<rparr>)) = Inl db_not_available
   \<and> db_not_available \<noteq> invalid_package"
  by (simp add: generate_plugin_def db_not_available_def invalid_package_def)

text \<open>
  C10. In Generate the storage check comes before package-name validation: for a
  request with a malformed package name (one that \<open>build_plugin_zip\<close> rejects with the
  validation error, status 400), Generate with storage unavailable answers with the
  storage-unavailable error (status 500), which is a different error.
\<close>

theorem storage_checked_first:
  "package_name req = [] \<or> CHR ''.'' \<notin> set (package_name req) \<Longrightarrow>
     build_plugin_zip getvalue req = Inl invalid_package
     \<and> generate_plugin getvalue None new_id created updated req = (Inl db_not_available, None)
     \<and> db_not_available \<noteq> invalid_package
     \<and> status_code db_not_available = 500 \<and> status_code invalid_package = 400"
  by (simp add: build_plugin_zip_rejects generate_plugin_unavailable errors_distinct)
     (simp add: db_not_available_def invalid_package_def)

theorem storage_checked_first_witness:
  "generate_plugin (\<lambda>z. [1]) None 7 0 0 (req0\<lparr>package_name := ''noseparator''\<rparr>) = (Inl db_not_available, None)
   \<and> build_plugin_zip (\<lambda>z. [1]) (req0\<lparr>package_name := ''noseparator''\<rparr>) = Inl invalid_package"
  using storage_checked_first [of "req0\<lparr>package_name := ''noseparator''\<rparr>" "\<lambda>z. [1]" 7 0 0]
  by (simp add: req0_def)

text \<open>
  C7 (as amended). With storage available: an identifier that \<open>ObjectId\<close> accepts and whose
  bytes no stored record carries yields the not-found error (status 404); an identifier
  that \<open>ObjectId\<close> refuses yields the invalid-id error (status 400), a different error, and
  yields it whatever the collection holds (the collection is not consulted). With storage
  unavailable every identifier yields the storage error.
\<close>

theorem download_error_kinds:
  "(ObjectId gen_id = Some oid \<and> oid \<notin> oid_binary ` fst ` set coll \<longrightarrow>
      download_plugin (Some coll) gen_id = Inl archive_not_found)
   \<and> (ObjectId gen_id = None \<longrightarrow> (\<forall>c. download_plugin (Some c) gen_id = Inl invalid_id))
   \<and> invalid_id \<noteq> archive_not_found
   \<and> status_code invalid_id = 400 \<and> status_code archive_not_found = 404
   \<and> download_plugin None gen_id = Inl db_not_available"
proof -
  have "invalid_id \<noteq> archive_not_found" "status_code invalid_id = 400"
       "status_code archive_not_found = 404"
    by (simp_all add: invalid_id_def archive_not_found_def)
  then show ?thesis
    by (simp add: download_plugin_def find_one_absent)
qed

theorem download_error_kinds_witness:
  "download_plugin (Some collA) ''0123456789abcdefABCDEF00'' = Inl archive_not_found
   \<and> download_plugin (Some collA) ''not-an-id'' = Inl invalid_id
   \<and> download_plugin (Some collA) ''0123456789abcdefABCDEF0g'' = Inl invalid_id
   \<and> invalid_id \<noteq> archive_not_found"
proof -
  have a: "ObjectId ''0123456789abcdefABCDEF00''
             = Some [0x01, 0x23, 0x45, 0x67, 0x89, 0xAB, 0xCD, 0xEF, 0xAB, 0xCD, 0xEF, 0x00]"
    by code_simp
  have a': "[0x01, 0x23, 0x45, 0x67, 0x89, 0xAB, 0xCD, 0xEF, 0xAB, 0xCD, 0xEF, 0x00]
              \<notin> oid_binary ` fst ` set collA"
    by code_simp
  have b: "ObjectId ''not-an-id'' = None"
    by (simp add: ObjectId_def)
  have c: "ObjectId ''0123456789abcdefABCDEF0g'' = None"
    by code_simp
  show ?thesis
    using download_error_kinds [of "''0123456789abcdefABCDEF00''"
            "[0x01, 0x23, 0x45, 0x67, 0x89, 0xAB, 0xCD, 0xEF, 0xAB, 0xCD, 0xEF, 0x00]" collA]
          download_error_kinds [of "''not-an-id''" "[]" collA]
          download_error_kinds [of "''0123456789abcdefABCDEF0g''" "[]" collA] a a' b c
    by simp
qed

text \<open>
  C7 as stated fails when storage is unavailable: an identifier of 24 hexadecimal digits
  that no record carries and a string that is no identifier both yield the storage error,
  so the first does not yield not-found and the two are not told apart. And a string of
  24 characters with whitespace between its digit pairs, which is not the form of an
  identifier, is accepted by \<open>ObjectId\<close>: the collection is consulted and the answer is
  not-found.
\<close>

theorem download_error_kinds_counterexample:
  "download_plugin None ''0123456789abcdefABCDEF00'' = Inl db_not_available
   \<and> download_plugin None ''not-an-id'' = Inl db_not_available
   \<and> db_not_available \<noteq> archive_not_found
   \<and> ObjectId ''00 11 22 33 44 55 66 77 '' = Some [0x00, 0x11, 0x22, 0x33, 0x44, 0x55, 0x66, 0x77]
   \<and> download_plugin (Some collA) ''00 11 22 33 44 55 66 77 '' = Inl archive_not_found"
proof -
  have "db_not_available \<noteq> archive_not_found"
    by (simp add: db_not_available_def archive_not_found_def)
  moreover have o: "ObjectId ''00 11 22 33 44 55 66 77 ''
      = Some [0x00, 0x11, 0x22, 0x33, 0x44, 0x55, 0x66, 0x77]"
    by code_simp
  moreover have "[0x00, 0x11, 0x22, 0x33, 0x44, 0x55, 0x66, 0x77] \<notin> oid_binary ` fst ` set collA"
    by code_simp
  then have "find_one collA [0x00, 0x11, 0x22, 0x33, 0x44, 0x55, 0x66, 0x77] = None"
    by (rule find_one_absent)
  ultimately show ?thesis
    by (simp add: download_plugin_def)
qed



text \<open>
  C8 (as amended). For every positive limit \<open>N\<close>, History returns at most \<open>N\<close> records,
  ordered by descending creation time (never increasing; strictly decreasing when the
  stored creation times are pairwise different), and no returned record has the key
  \<open>zip\<close> of the archive payload.
\<close>

theorem history_limit:
  assumes pos: "0 < limit"
  shows "\<exists>items. history (Some coll) limit = Inr items
     \<and> length items \<le> nat limit
     \<and> sorted_wrt (\<lambda>a b. created_at_key b \<le> created_at_key a) items
     \<and> (distinct (map (\<lambda>r. created_at_key (snd r)) coll) \<longrightarrow>
          sorted_wrt (\<lambda>a b. created_at_key b < created_at_key a) items)
     \<and> (\<forall>it\<in>set items. ''zip'' \<notin> fst ` set it)"
proof -
  let ?k = "\<lambda>r. created_at_key (snd r)"
  let ?rs = "cursor_limit limit (sort_desc ?k coll)"
  let ?items = "map (\<lambda>r. history_item (fst r, dict_pop ''zip'' (snd r))) ?rs"
  have rs: "?rs = take (nat limit) (sort_desc ?k coll)"
    using pos by (simp add: cursor_limit_def)
  have len: "length ?items \<le> nat limit"
    by (simp add: rs)
  have srt: "sorted_wrt (\<lambda>a b. ?k b \<le> ?k a) ?rs"
    unfolding rs by (rule sorted_wrt_take) (rule sorted_sort_desc)
  have s1: "sorted_wrt (\<lambda>a b. created_at_key b \<le> created_at_key a) ?items"
    using srt by (simp add: sorted_wrt_map created_at_key_history_item)
  have s2: "sorted_wrt (\<lambda>a b. created_at_key b < created_at_key a) ?items"
    if d: "distinct (map ?k coll)"
  proof -
    from d have "distinct (map ?k (sort_desc ?k coll))"
      by (simp only: distinct_sort_desc)
    then have "distinct (take (nat limit) (map ?k (sort_desc ?k coll)))"
      by (rule distinct_take)
    then have "distinct (map ?k ?rs)"
      by (simp only: rs take_map)
    with srt have "sorted_wrt (\<lambda>a b. ?k b < ?k a) ?rs"
      by (rule sorted_wrt_strict)
    then show ?thesis
      by (simp add: sorted_wrt_map created_at_key_history_item)
  qed
  have nz: "\<forall>it\<in>set ?items. ''zip'' \<notin> fst ` set it"
    using history_item_no_zip by auto
  show ?thesis
    using len s1 s2 nz by (intro exI[of _ ?items]) (simp only: history_items, blast)
qed

text \<open>
  C8 as stated fails: with limit 0 (no limit for the cursor) History returns the one
  stored record, more than 0; and two records created at the same time follow each
  other in the answer, so the order is not strictly descending.
\<close>

theorem history_limit_counterexample:
  "history (Some collA) 0 = Inr [[(''created_at'', BDateTime 5), (''id'', BString ''000000000000000000000001'')]]
   \<and> map_sum id (map created_at_key) (history (Some collT) 3) = Inr [Some 9, Some 5, Some 5]"
  by code_simp

theorem history_limit_witness:
  "\<exists>items. history (Some collT) 2 = Inr items \<and> length items \<le> 2
      \<and> map created_at_key items = [Some 9, Some 5]
      \<and> (\<forall>it\<in>set items. ''zip'' \<notin> fst ` set it)"
proof -
  have "(0::int) < 2" by simp
  from history_limit [OF this, of collT] obtain items where
    h: "history (Some collT) 2 = Inr items" "length items \<le> nat 2"
       "\<forall>it\<in>set items. ''zip'' \<notin> fst ` set it"
    by blast
  have "map_sum id (map created_at_key) (history (Some collT) 2) = Inr [Some 9, Some 5]"
    by code_simp
  with h show ?thesis by auto
qed




text \<open>
  C9. For every input, \<open>_plugin_yml\<close> renders the five header lines, the description
  line being the given description when it is not empty and the plugin name otherwise;
  when the command list is not empty, the line \<open>commands:\<close> and, for each command whose
  trimmed name is not empty, in input order, its block: the key line, a description line
  only if a (non-empty) description was provided, the usage line \<open>/<name>\<close>, the permission
  \<open>replix.<name>\<close> and the fixed permission-denied message, with \<open><name>\<close> the trimmed name.
\<close>

theorem manifest_text:
  "plugin_yml name main_class descr cmds =
     join nl ([''name: '' @ name,
               ''version: 1.0.0'',
               ''api-version: '' @ sq @ ''1.20'' @ sq,
               ''main: '' @ main_class,
               ''description: '' @ (if descr = [] then name else descr)]
              @ (if cmds = [] then []
                 else ''commands:'' # concat (map manifest_block (filter well_named cmds))))
     @ nl"
  by (simp add: plugin_yml_def plugin_yml_loop_blocks Let_def)

theorem manifest_text_witness:
  "plugin_yml ''My Plugin'' ''com.example.Main'' '''' [cmd_hello, cmd_blank, cmd_greet] =
     ''name: My Plugin'' @ nl
     @ ''version: 1.0.0'' @ nl
     @ ''api-version: '' @ sq @ ''1.20'' @ sq @ nl
     @ ''main: com.example.Main'' @ nl
     @ ''description: My Plugin'' @ nl
     @ ''commands:'' @ nl
     @ ''  hello:'' @ nl
     @ ''    description: Say hi'' @ nl
     @ ''    usage: /hello'' @ nl
     @ ''    permission: replix.hello'' @ nl
     @ ''    permission-message: You don'' @ sq @ ''t have permission to use this command.'' @ nl
     @ ''  greet:'' @ nl
     @ ''    usage: /greet'' @ nl
     @ ''    permission: replix.greet'' @ nl
     @ ''    permission-message: You don'' @ sq @ ''t have permission to use this command.'' @ nl"
proof -
  have s: "strip ''hello'' = ''hello''" "strip '' '' = []" "strip '' greet'' = ''greet''"
    by (simp_all add: strip_def isspace_def)
  show ?thesis
    using manifest_text [of "''My Plugin''" "''com.example.Main''" "''''" "[cmd_hello, cmd_blank, cmd_greet]"]
    by (simp add: cmd_hello_def cmd_blank_def cmd_greet_def well_named_def manifest_block_def Let_def s nl_def sq_def)
qed

text \<open>
  C4. For every valid request (package name not empty and with a \<open>.\<close>), with \<open>N\<close> commands
  whose trimmed name is not empty, \<open>build_plugin_zip\<close> serialises the archive that was
  written, in this order: the manifest, the main entry, the \<open>N\<close> handler files in input
  order, the build descriptor and the ignore file: \<open>2 + N\<close> generated entries and 2 fixed
  ones. Commands with an empty or whitespace-only name contribute no entry.
\<close>

theorem archive_entries:
  assumes "package_name req \<noteq> []" and "CHR ''.'' \<in> set (package_name req)"
  shows "build_plugin_zip getvalue req = Inr (getvalue (zip_writes (strip (package_name req)) req))
     \<and> zip_writes (strip (package_name req)) req =
         [(''plugin.yml'', plugin_yml (plugin_name req) (strip (package_name req) @ ''.Main'')
                             (description req) (commands req)),
          (main_path (strip (package_name req)),
             main_java (strip (package_name req)) ''Main'' (description req) (commands req))]
         @ map (\<lambda>c. (handler_path (strip (package_name req)) c,
                       command_java (strip (package_name req)) c))
             (filter well_named (commands req))
         @ [(''pom.xml'', pom_xml (strip (package_name req)) req), (''.gitignore'', gitignore)]
     \<and> map fst (zip_writes (strip (package_name req)) req) =
         [''plugin.yml'', main_path (strip (package_name req))]
         @ map (handler_path (strip (package_name req))) (filter well_named (commands req))
         @ [''pom.xml'', ''.gitignore'']
     \<and> length (zip_writes (strip (package_name req)) req)
         = (2 + length (filter well_named (commands req))) + 2"
proof -
  have "build_plugin_zip getvalue req = Inr (getvalue (zip_writes (strip (package_name req)) req))"
    using assms by (simp add: build_plugin_zip_cases)
  moreover have "map fst (zip_writes (strip (package_name req)) req) =
         [''plugin.yml'', main_path (strip (package_name req))]
         @ map (handler_path (strip (package_name req))) (filter well_named (commands req))
         @ [''pom.xml'', ''.gitignore'']"
    by (simp add: zip_writes_entries comp_def)
  moreover have "length (zip_writes (strip (package_name req)) req)
         = (2 + length (filter well_named (commands req))) + 2"
    by (simp add: zip_writes_entries)
  ultimately show ?thesis
    using zip_writes_entries[of "strip (package_name req)" req] by simp
qed

theorem archive_entries_witness:
  "map fst (zip_writes ''com.example'' req_cmds) =
     [''plugin.yml'', ''src/main/java/com/example/Main.java'',
      ''src/main/java/com/example/commands/HelloCommand.java'',
      ''src/main/java/com/example/commands/GreetCommand.java'',
      ''pom.xml'', ''.gitignore'']
   \<and> build_plugin_zip pk req_cmds = Inr (pk (zip_writes ''com.example'' req_cmds))"
proof -
  have p: "package_name req_cmds = ''com.example''" "strip ''com.example'' = ''com.example''"
          "commands req_cmds = [cmd_hello, cmd_blank, cmd_greet]"
    by (simp_all add: req_cmds_def strip_def isspace_def)
  have "package_name req_cmds \<noteq> []" "CHR ''.'' \<in> set (package_name req_cmds)"
    by (simp_all add: p)
  from archive_entries [OF this, of pk]
  have a: "build_plugin_zip pk req_cmds = Inr (pk (zip_writes (strip (package_name req_cmds)) req_cmds))"
    and b: "map fst (zip_writes (strip (package_name req_cmds)) req_cmds) =
         [''plugin.yml'', main_path (strip (package_name req_cmds))]
         @ map (handler_path (strip (package_name req_cmds))) (filter well_named (commands req_cmds))
         @ [''pom.xml'', ''.gitignore'']"
    by blast+
  show ?thesis
    using a b unfolding p paths_req_cmds by blast
qed

text \<open>
  C1, at the command named by one space: the rendered main entry has an import line and a
  registration line for it (\<open>_main_java\<close> tests the untrimmed name), while the manifest has
  no block for it and the archive no handler file.
\<close>

theorem blank_name_main_entry:
  "main_java ''com.example'' ''Main'' '''' [cmd_blank] =
     ''package com.example;'' @ nl
     @ nl
     @ ''import org.bukkit.plugin.java.JavaPlugin;'' @ nl
     @ ''import com.example.commands. Command;'' @ nl
     @ nl
     @ ''public class Main extends JavaPlugin {'' @ nl
     @ nl
     @ ''    @Override'' @ nl
     @ ''    public void onEnable() {'' @ nl
     @ ''        getLogger().info('' @ dq @ ''Main enabled!'' @ dq @ '');'' @ nl
     @ ''        this.getCommand('' @ dq @ '' '' @ dq @ '').setExecutor(new  Command());'' @ nl
     @ ''    }'' @ nl
     @ nl
     @ ''    @Override'' @ nl
     @ ''    public void onDisable() {'' @ nl
     @ ''        getLogger().info('' @ dq @ ''Main disabled!'' @ dq @ '');'' @ nl
     @ ''    }'' @ nl
     @ ''}'' @ nl
   \<and> plugin_yml ''My Plugin'' ''com.example.Main'' '''' [cmd_blank] =
     ''name: My Plugin'' @ nl
     @ ''version: 1.0.0'' @ nl
     @ ''api-version: '' @ sq @ ''1.20'' @ sq @ nl
     @ ''main: com.example.Main'' @ nl
     @ ''description: My Plugin'' @ nl
     @ ''commands:'' @ nl
   \<and> map fst (zip_writes ''com.example'' req_blank) =
     [''plugin.yml'', ''src/main/java/com/example/Main.java'', ''pom.xml'', ''.gitignore'']"
  by code_simp

text \<open>
  C2, at the accepted request whose only command is named by one space: the \<open>files\<close>
  field lists a handler path, and the archive that is built has no handler entry.
\<close>

theorem files_differ_from_archive:
  "files_of req_blank =
     [''plugin.yml'', ''src/main/java/com/example/Main.java'',
      ''src/main/java/com/example/commands/ Command.java'']
   \<and> map fst (zip_writes (strip (package_name req_blank)) req_blank) =
     [''plugin.yml'', ''src/main/java/com/example/Main.java'', ''pom.xml'', ''.gitignore'']
   \<and> build_plugin_zip pk req_blank = Inr (pk (zip_writes (strip (package_name req_blank)) req_blank))"
proof -
  have "files_of req_blank =
     [''plugin.yml'', ''src/main/java/com/example/Main.java'',
      ''src/main/java/com/example/commands/ Command.java'']"
    by code_simp
  moreover have "map fst (zip_writes (strip (package_name req_blank)) req_blank) =
     [''plugin.yml'', ''src/main/java/com/example/Main.java'', ''pom.xml'', ''.gitignore'']"
    by code_simp
  moreover have "build_plugin_zip pk req_blank = Inr (pk (zip_writes (strip (package_name req_blank)) req_blank))"
    by (simp add: build_plugin_zip_cases req_blank_def)
  ultimately show ?thesis by blast
qed

end
